theory Spec2Isabelle
  imports Complex_Main
begin

section \<open>PAC therapy model: susceptible and antibiotic-resistant bacteria\<close>

text \<open>
  A shallow embedding of the script
  \<^verbatim>\<open>v_pac_therapy_in_a_system_with_susceptible_and_antibiotic_resistant_bacteria.py\<close>.

  The derivative function \<^verbatim>\<open>model\<close> is called by \<^verbatim>\<open>solve_ivp\<close> only, which hands it the
  state as a NumPy array of \<^verbatim>\<open>float64\<close>; so \<^verbatim>\<open>S\<close>, \<^verbatim>\<open>A\<close> and everything computed from
  them are \<^verbatim>\<open>numpy.float64\<close> scalars. Finite values are modelled as exact reals:
  rounding and overflow are not modelled, so every equation below is one of exact
  arithmetic. What is modelled of \<^verbatim>\<open>float64\<close> is the division by zero: it raises
  nothing (NumPy warns and goes on) and gives \<^verbatim>\<open>nan\<close> or an infinity, a value that is
  not finite. Unpacking a sequence into four names raises \<^verbatim>\<open>ValueError\<close> unless it has
  four items.
\<close>

subsection \<open>Values of type float64\<close>

text \<open>
  A \<^verbatim>\<open>float64\<close> is a finite number or one of \<^verbatim>\<open>nan\<close>, \<^verbatim>\<open>inf\<close>, \<^verbatim>\<open>-inf\<close>. The script
  never compares a quotient and never divides by one, so the three values that are
  not finite need not be told apart: \<open>NonFinite\<close> stands for any of them.
\<close>

datatype np_float = Finite real | NonFinite

datatype py_error = ValueError

text \<open>
  \<^verbatim>\<open>a / c\<close> for finite operands: the quotient, and a value that is not finite when
  \<^verbatim>\<open>c\<close> is zero (\<^verbatim>\<open>nan\<close> for \<^verbatim>\<open>0 / 0\<close>, an infinity otherwise).
\<close>

definition true_divide :: "real \<Rightarrow> real \<Rightarrow> np_float" where
  "true_divide a c = (if c = 0 then NonFinite else Finite (a / c))"

text \<open>
  Sum, difference and product: with an operand that is not finite the result is not
  finite either (\<^verbatim>\<open>inf * 0\<close> and \<^verbatim>\<open>inf - inf\<close> are \<^verbatim>\<open>nan\<close>).
\<close>

instantiation np_float :: "{plus, minus, times}"
begin

fun plus_np_float :: "np_float \<Rightarrow> np_float \<Rightarrow> np_float" where
  "plus_np_float (Finite a) (Finite c) = Finite (a + c)"
| "plus_np_float _ _ = NonFinite"

fun minus_np_float :: "np_float \<Rightarrow> np_float \<Rightarrow> np_float" where
  "minus_np_float (Finite a) (Finite c) = Finite (a - c)"
| "minus_np_float _ _ = NonFinite"

fun times_np_float :: "np_float \<Rightarrow> np_float \<Rightarrow> np_float" where
  "times_np_float (Finite a) (Finite c) = Finite (a * c)"
| "times_np_float _ _ = NonFinite"

instance ..

end

subsection \<open>Forcing functions\<close>

text \<open>
  The \<^verbatim>\<open>for t_n in injection_times\<close> loop of \<^verbatim>\<open>antibiotic_input\<close>: the first window that
  holds \<^verbatim>\<open>t\<close> returns the dose, and the fall-through after the loop returns 0.
\<close>

fun antibiotic_input_for :: "real list \<Rightarrow> real \<Rightarrow> real \<Rightarrow> real \<Rightarrow> real" where
  "antibiotic_input_for [] dose infusion_duration t = 0"
| "antibiotic_input_for (t_n # rest) dose infusion_duration t =
     (if t_n \<le> t \<and> t < t_n + infusion_duration then dose
      else antibiotic_input_for rest dose infusion_duration t)"

definition antibiotic_input :: "real \<Rightarrow> real" where
  "antibiotic_input t =
     (let injection_times = [100];
          dose = 6.61;
          infusion_duration = 1
      in antibiotic_input_for injection_times dose infusion_duration t)"

fun phage_input_for :: "real list \<Rightarrow> real \<Rightarrow> real \<Rightarrow> real \<Rightarrow> real" where
  "phage_input_for [] dose infusion_duration t = 0"
| "phage_input_for (t_n # rest) dose infusion_duration t =
     (if t_n \<le> t \<and> t < t_n + infusion_duration then dose
      else phage_input_for rest dose infusion_duration t)"

definition phage_input :: "real \<Rightarrow> real" where
  "phage_input t =
     (let injection_times = [0];
          dose = 0;
          infusion_duration = 1
      in phage_input_for injection_times dose infusion_duration t)"

subsection \<open>Fraction functions\<close>

text \<open>
  Both functions divide first and test \<^verbatim>\<open>total > 0\<close> afterwards:
  \<^verbatim>\<open>
  total = A + S
  alpha = A / total
  return alpha if total > 0 else 0
  \<close>
  The quotient is computed whatever \<^verbatim>\<open>total\<close> is, and returned only when the test
  holds.
\<close>

definition alpha :: "real \<Rightarrow> real \<Rightarrow> np_float" where
  "alpha A S =
     (let total = A + S;
          alpha' = true_divide A total
      in if total > 0 then alpha' else Finite 0)"

definition sigma :: "real \<Rightarrow> real \<Rightarrow> np_float" where
  "sigma A S =
     (let total = A + S;
          sigma' = true_divide S total
      in if total > 0 then sigma' else Finite 0)"

subsection \<open>The right-hand side of the ODE system\<close>

text \<open>
  \<^verbatim>\<open>model(t, y, \<gamma>, e, ka, rS, K, mA, mS, rA, i, d, b)\<close>, statement by statement: the
  unpacking of \<^verbatim>\<open>y\<close>, the two fractions, then the four derivatives, each with the
  operations of the source in their order. Products and sums of finite operands are
  written inside \<open>Finite\<close>; the operations that take a fraction or the quotient
  \<^verbatim>\<open>(S + A) / K\<close> are those of \<open>np_float\<close>. The floor logic of the source is commented
  out and is not part of the model.
\<close>

fun model :: "real \<Rightarrow> real list \<Rightarrow> real \<Rightarrow> real \<Rightarrow> real \<Rightarrow> real \<Rightarrow> real \<Rightarrow> real \<Rightarrow> real
    \<Rightarrow> real \<Rightarrow> real \<Rightarrow> real \<Rightarrow> real \<Rightarrow> py_error + np_float list" where
  "model t [Ca, S, A, P] \<gamma> e ka rS K mA mS rA i d b =
     (let \<sigma> = sigma A S;
          \<alpha> = alpha A S;
          dCa_dt = Finite (- \<gamma> * Ca + antibiotic_input t);
          dS_dt = Finite (rS * S) * (Finite 1 - true_divide (S + A) K) - Finite (e * Ca * ka)
                    - Finite (i * S) * \<sigma> * Finite P - Finite (mA * S) + Finite (mS * A);
          dA_dt = Finite (rA * A) * (Finite 1 - true_divide (S + A) K)
                    - Finite (i * A) * \<alpha> * Finite P + Finite (mA * S) - Finite (mS * A);
          dP_dt = Finite (b * i * P) * (\<sigma> * Finite S + \<alpha> * Finite A) - Finite (d * P)
                    + Finite (phage_input t)
      in Inr [dCa_dt, dS_dt, dA_dt, dP_dt])"
| "model t _ \<gamma> e ka rS K mA mS rA i d b = Inl ValueError"

subsection \<open>Parameters and initial populations of the script\<close>

text \<open>
  The module-level scalars. \<^verbatim>\<open>10**(x)\<close> with a float exponent is the real power.
  They are declared after \<open>model\<close>, whose parameters shadow them in the source too.
\<close>

definition i :: real where "i = 10 powr (- 6.21)"
definition d :: real where "d = 0.10"
definition b :: real where "b = 106"

definition \<gamma> :: real where "\<gamma> = 0.23"
definition Ca :: real where "Ca = 0"
definition ka :: real where "ka = 10 powr 5.4"
definition e :: real where "e = 1"

definition K :: real where "K = 10 powr 7.94"
definition rS :: real where "rS = 1.85"
definition mA :: real where "mA = 10 powr (- 6.03)"
definition mS :: real where "mS = 10 powr (- 6.03)"
definition rA :: real where "rA = 1.63"

definition S0 :: real where "S0 = 0.5 * (10 powr 4.67)"
definition A0 :: real where "A0 = 0.5 * (10 powr 4.67)"
definition P0 :: real where "P0 = 10 powr 6.27"
definition y0 :: "real list" where "y0 = [Ca, S0, A0, P0]"

subsection \<open>Time settings\<close>

text \<open>
  \<^verbatim>\<open>np.linspace(start, stop, num)\<close> with its default \<^verbatim>\<open>endpoint=True\<close>, as NumPy documents
  it: \<^verbatim>\<open>num\<close> samples \<^verbatim>\<open>start + k * step\<close> with \<^verbatim>\<open>step = (stop - start) / (num - 1)\<close>,
  and the single sample \<^verbatim>\<open>start\<close> when \<^verbatim>\<open>num\<close> is 1.
\<close>

definition linspace :: "real \<Rightarrow> real \<Rightarrow> nat \<Rightarrow> real list" where
  "linspace start stop num =
     (if num = 1 then [start]
      else map (\<lambda>k. start + real k * ((stop - start) / real (num - 1))) [0..<num])"

definition t_end :: real where "t_end = 126"
definition timesteps :: nat where "timesteps = 126"
definition t_eval :: "real list" where "t_eval = linspace 0 t_end timesteps"

section \<open>Properties\<close>

subsection \<open>Auxiliary facts\<close>

lemma true_divide_nonzero: "c \<noteq> 0 \<Longrightarrow> true_divide a c = Finite (a / c)"
  by (simp add: true_divide_def)

lemma true_divide_zero: "true_divide a 0 = NonFinite"
  by (simp add: true_divide_def)

text \<open>Both fraction functions return a finite value at every pair of finite arguments.\<close>

lemma alpha_eq: "alpha A S = Finite (if A + S > 0 then A / (A + S) else 0)"
  by (simp add: alpha_def true_divide_def)

lemma sigma_eq: "sigma A S = Finite (if A + S > 0 then S / (A + S) else 0)"
  by (simp add: sigma_def true_divide_def)

lemma K_nonzero: "K \<noteq> 0"
  by (simp add: K_def)

text \<open>
  With the fractions as returned and a carrying capacity other than zero, \<open>model\<close>
  returns the four derivatives of the source as finite values, with no clamping.
\<close>

lemma model_fractions:
  assumes "sigma A S = Finite \<sigma>'" and "alpha A S = Finite \<alpha>'" and "K' \<noteq> 0"
  shows "model t [C, S, A, P] \<gamma>' e' ka' rS' K' mA' mS' rA' i' d' b' =
     Inr [Finite (- \<gamma>' * C + antibiotic_input t),
          Finite (rS' * S * (1 - (S + A) / K') - e' * C * ka' - i' * S * \<sigma>' * P
                  - mA' * S + mS' * A),
          Finite (rA' * A * (1 - (S + A) / K') - i' * A * \<alpha>' * P + mA' * S - mS' * A),
          Finite (b' * i' * P * (\<sigma>' * S + \<alpha>' * A) - d' * P + phage_input t)]"
  using assms by (simp add: true_divide_nonzero)

lemma model_wrong_length:
  "length y \<noteq> 4 \<Longrightarrow> model t y \<gamma>' e' ka' rS' K' mA' mS' rA' i' d' b' = Inl ValueError"
  by (induction t y \<gamma>' e' ka' rS' K' mA' mS' rA' i' d' b' rule: model.induct) simp_all

text \<open>
  With a carrying capacity of zero the quotient \<^verbatim>\<open>(S + A) / K\<close> is not finite, and
  neither are the two bacterial derivatives.
\<close>

lemma model_zero_capacity:
  "\<exists>dCa dP. model t [C, S, A, P] \<gamma>' e' ka' rS' 0 mA' mS' rA' i' d' b' =
     Inr [Finite dCa, NonFinite, NonFinite, Finite dP]"
  by (simp add: true_divide_zero alpha_eq sigma_eq)

lemma mutation_terms_sum:
  fixes gS gA kC fS fA mAS mSA :: real
  shows "(gS - kC - fS - mAS + mSA) + (gA - fA + mAS - mSA) = gS + gA - kC - (fS + fA)"
  by simp

text \<open>
  The evaluation grid: 126 points, the first 0, the last 126, consecutive points
  \<open>126 / 125\<close> apart.
\<close>

lemma t_eval_grid:
  "length t_eval = 126 \<and> t_eval ! 0 = 0 \<and> t_eval ! 125 = 126 \<and>
   (\<forall>k<125. t_eval ! Suc k - t_eval ! k = 126 / 125)"
  by (simp add: t_eval_def linspace_def t_end_def timesteps_def algebra_simps)

subsection \<open>Forcing functions\<close>

text \<open>
  Claim C3. For every real time \<open>t\<close>, \<open>antibiotic_input t\<close> is 6.61 when
  \<open>100 \<le> t < 101\<close> and 0 for every other \<open>t\<close>, below 100 and from 101 on.
\<close>

theorem antibiotic_input_window:
  "antibiotic_input t = (if 100 \<le> t \<and> t < 101 then 6.61 else 0)"
  by (simp add: antibiotic_input_def)

theorem antibiotic_input_window_witness:
  "antibiotic_input 100 = 6.61 \<and> antibiotic_input 100.5 = 6.61 \<and>
   antibiotic_input 101 = 0 \<and> antibiotic_input 99.5 = 0"
  using antibiotic_input_window [of 100] antibiotic_input_window [of "100.5"]
    antibiotic_input_window [of 101] antibiotic_input_window [of "99.5"]
  by simp

text \<open>
  Claim C5. For every real time \<open>t\<close>, \<open>phage_input t\<close> is 0 under the configured
  schedule (injection time 0, duration 1, dose 0): inside the window the dose 0 is
  returned, outside it the fall-through 0.
\<close>

theorem phage_input_zero: "phage_input t = 0"
  by (simp add: phage_input_def)

subsection \<open>Fraction functions\<close>

text \<open>
  Claim C1. When the combined population \<open>A + S\<close> is zero, and so at \<open>(0, 0)\<close>,
  \<open>alpha\<close> and \<open>sigma\<close> both return 0: the quotient computed before the test is not
  finite, the test \<^verbatim>\<open>total > 0\<close> fails, and 0 is returned in its place. Nothing is
  raised and no \<^verbatim>\<open>nan\<close> is returned.
\<close>

theorem alpha_sigma_zero_total:
  "A + S = 0 \<Longrightarrow>
     true_divide A (A + S) = NonFinite \<and> true_divide S (A + S) = NonFinite \<and>
     alpha A S = Finite 0 \<and> sigma A S = Finite 0"
  by (simp add: alpha_def sigma_def true_divide_zero)

theorem alpha_sigma_zero_total_witness:
  "(0::real) + 0 = 0 \<and>
   true_divide 0 (0 + 0) = NonFinite \<and> true_divide 0 (0 + 0) = NonFinite \<and>
   alpha 0 0 = Finite 0 \<and> sigma 0 0 = Finite 0"
  using alpha_sigma_zero_total [of 0 0] by simp

text \<open>
  Claim C4. For all \<open>A \<ge> 0\<close> and \<open>S \<ge> 0\<close> with \<open>A + S > 0\<close>, both fraction functions
  return, and the two fractions add up to 1 (in exact arithmetic).
\<close>

theorem alpha_plus_sigma_eq_one:
  assumes "0 \<le> A" and "0 \<le> S" and "0 < A + S"
  shows "\<exists>a s. alpha A S = Finite a \<and> sigma A S = Finite s \<and> a + s = 1"
proof -
  from assms(3) have nz: "A + S \<noteq> 0" by simp
  have "A / (A + S) + S / (A + S) = 1"
    using nz by (simp add: add_divide_distrib [symmetric])
  with assms(3) show ?thesis
    by (simp add: alpha_eq sigma_eq)
qed

theorem alpha_plus_sigma_eq_one_witness:
  "(0::real) \<le> 1 \<and> (0::real) \<le> 3 \<and> (0::real) < 1 + 3 \<and>
   (\<exists>a s. alpha 1 3 = Finite a \<and> sigma 1 3 = Finite s \<and> a + s = 1)"
  using alpha_plus_sigma_eq_one [of 1 3] by simp

text \<open>
  Claim C10. For all \<open>A\<close> and \<open>S\<close> with \<open>A + S\<close> strictly negative, \<open>alpha A S\<close> and
  \<open>sigma A S\<close> both return 0: the quotient is finite, the guard \<^verbatim>\<open>total > 0\<close> fails, and
  the quotient is dropped.
\<close>

theorem alpha_sigma_negative_total:
  "A + S < 0 \<Longrightarrow> alpha A S = Finite 0 \<and> sigma A S = Finite 0"
  by (simp add: alpha_eq sigma_eq)

theorem alpha_sigma_negative_total_witness:
  "(- 3::real) + 1 < 0 \<and> alpha (- 3) 1 = Finite 0 \<and> sigma (- 3) 1 = Finite 0 \<and>
   (- 3::real) / (- 3 + 1) \<noteq> 0 \<and> (1::real) / (- 3 + 1) \<noteq> 0"
  using alpha_sigma_negative_total [of "- 3" 1] by simp

subsection \<open>The derivative function\<close>

text \<open>
  Claim C2. For every time \<open>t\<close> and every state \<open>(C, S, A, P)\<close>, also one with
  \<open>S + A = 0\<close> or with negative components, and for all parameters with a carrying
  capacity other than zero (that of the script is \<open>10\<^sup>7\<^sup>.\<^sup>9\<^sup>4\<close>), \<open>model\<close> returns the
  four-component vector
  \<open>[-\<gamma>\<cdot>C + antibiotic_input t,
    rS\<cdot>S\<cdot>(1 - (S+A)/K) - e\<cdot>C\<cdot>ka - i\<cdot>S\<cdot>\<sigma>\<cdot>P - mA\<cdot>S + mS\<cdot>A,
    rA\<cdot>A\<cdot>(1 - (S+A)/K) - i\<cdot>A\<cdot>\<alpha>\<cdot>P + mA\<cdot>S - mS\<cdot>A,
    b\<cdot>i\<cdot>P\<cdot>(\<sigma>\<cdot>S + \<alpha>\<cdot>A) - d\<cdot>P + phage_input t]\<close>,
  where \<open>\<sigma>\<close> and \<open>\<alpha>\<close> are what \<open>sigma A S\<close> and \<open>alpha A S\<close> return at the current
  \<open>(A, S)\<close>; no component is clamped.
\<close>

theorem model_derivatives:
  assumes "K' \<noteq> 0"
  shows "\<exists>\<sigma>' \<alpha>'.
     sigma A S = Finite \<sigma>' \<and> alpha A S = Finite \<alpha>' \<and>
     model t [C, S, A, P] \<gamma>' e' ka' rS' K' mA' mS' rA' i' d' b' =
       Inr [Finite (- \<gamma>' * C + antibiotic_input t),
            Finite (rS' * S * (1 - (S + A) / K') - e' * C * ka' - i' * S * \<sigma>' * P
                    - mA' * S + mS' * A),
            Finite (rA' * A * (1 - (S + A) / K') - i' * A * \<alpha>' * P + mA' * S - mS' * A),
            Finite (b' * i' * P * (\<sigma>' * S + \<alpha>' * A) - d' * P + phage_input t)]"
proof -
  obtain \<sigma>' where sg: "sigma A S = Finite \<sigma>'"
    by (simp add: sigma_eq)
  obtain \<alpha>' where al: "alpha A S = Finite \<alpha>'"
    by (simp add: alpha_eq)
  from model_fractions [OF sg al assms] sg al show ?thesis
    by blast
qed

theorem model_derivatives_witness:
  "(2::real) \<noteq> 0 \<and>
   (\<exists>\<sigma>' \<alpha>'.
     sigma 0 0 = Finite \<sigma>' \<and> alpha 0 0 = Finite \<alpha>' \<and>
     model 100 [1, 0, 0, - 1] 1 1 1 1 2 5 7 1 1 1 1 =
       Inr [Finite (- 1 * 1 + antibiotic_input 100),
            Finite (1 * 0 * (1 - (0 + 0) / 2) - 1 * 1 * 1 - 1 * 0 * \<sigma>' * (- 1)
                    - 5 * 0 + 7 * 0),
            Finite (1 * 0 * (1 - (0 + 0) / 2) - 1 * 0 * \<alpha>' * (- 1) + 5 * 0 - 7 * 0),
            Finite (1 * 1 * (- 1) * (\<sigma>' * 0 + \<alpha>' * 0) - 1 * (- 1) + phage_input 100)])"
  using model_derivatives [where K' = 2 and A = 0 and S = 0 and t = 100 and C = 1
      and P = "- 1" and \<gamma>' = 1 and e' = 1 and ka' = 1 and rS' = 1 and mA' = 5 and mS' = 7
      and rA' = 1 and i' = 1 and d' = 1 and b' = 1]
  by simp

text \<open>
  Claim C8. At \<open>t = 0\<close> and the initial state \<open>y0 = [0, S0, A0, P0]\<close> with
  \<open>S0 = A0 = 0.5 \<cdot> 10\<^sup>4\<^sup>.\<^sup>6\<^sup>7\<close> and \<open>P0 = 10\<^sup>6\<^sup>.\<^sup>2\<^sup>7\<close>, the derivative function returns a
  vector whose first component is exactly 0, because the initial antibiotic
  concentration is 0 and \<open>antibiotic_input 0 = 0\<close>.
\<close>

theorem model_initial_dCa_dt_zero:
  "Ca = 0 \<and> antibiotic_input 0 = 0 \<and>
   (\<exists>dS dA dP. model 0 y0 \<gamma> e ka rS K mA mS rA i d b =
      Inr [Finite 0, Finite dS, Finite dA, Finite dP])"
proof -
  have "\<exists>dS dA dP. model 0 [Ca, S0, A0, P0] \<gamma> e ka rS K mA mS rA i d b =
      Inr [Finite 0, Finite dS, Finite dA, Finite dP]"
    unfolding model_fractions [OF sigma_eq alpha_eq K_nonzero]
    by (simp add: Ca_def antibiotic_input_def)
  then show ?thesis
    by (simp add: y0_def Ca_def antibiotic_input_def del: model.simps)
qed

text \<open>
  Claim C9. For every time and every state \<open>(C, S, A, P)\<close> with \<open>A + S \<noteq> 0\<close>, and for
  all parameters with a carrying capacity other than zero (that of the script is
  \<open>10\<^sup>7\<^sup>.\<^sup>9\<^sup>4\<close>), the second and third components returned by \<open>model\<close> add up to
  \<open>rS\<cdot>S\<cdot>(1 - (S+A)/K) + rA\<cdot>A\<cdot>(1 - (S+A)/K) - e\<cdot>C\<cdot>ka - i\<cdot>P\<cdot>(\<sigma>\<cdot>S + \<alpha>\<cdot>A)\<close>, where \<open>\<sigma>\<close>
  and \<open>\<alpha>\<close> are what \<open>sigma A S\<close> and \<open>alpha A S\<close> return: the sum does not depend on
  the mutation rates (in exact arithmetic).
\<close>

theorem model_mutation_terms_cancel:
  assumes "A + S \<noteq> 0" and "K' \<noteq> 0"
  shows "\<exists>\<sigma>' \<alpha>' dCa dS dA dP.
     sigma A S = Finite \<sigma>' \<and> alpha A S = Finite \<alpha>' \<and>
     model t [C, S, A, P] \<gamma>' e' ka' rS' K' mA' mS' rA' i' d' b' =
       Inr [Finite dCa, Finite dS, Finite dA, Finite dP] \<and>
     dS + dA = rS' * S * (1 - (S + A) / K') + rA' * A * (1 - (S + A) / K')
               - e' * C * ka' - i' * P * (\<sigma>' * S + \<alpha>' * A)"
proof -
  obtain \<sigma>' where sg: "sigma A S = Finite \<sigma>'"
    by (simp add: sigma_eq)
  obtain \<alpha>' where al: "alpha A S = Finite \<alpha>'"
    by (simp add: alpha_eq)
  define dS where
    "dS = rS' * S * (1 - (S + A) / K') - e' * C * ka' - i' * S * \<sigma>' * P - mA' * S + mS' * A"
  define dA where
    "dA = rA' * A * (1 - (S + A) / K') - i' * A * \<alpha>' * P + mA' * S - mS' * A"
  have m: "model t [C, S, A, P] \<gamma>' e' ka' rS' K' mA' mS' rA' i' d' b' =
     Inr [Finite (- \<gamma>' * C + antibiotic_input t), Finite dS, Finite dA,
          Finite (b' * i' * P * (\<sigma>' * S + \<alpha>' * A) - d' * P + phage_input t)]"
    unfolding dS_def dA_def by (rule model_fractions [OF sg al assms(2)])
  have infect: "i' * S * \<sigma>' * P + i' * A * \<alpha>' * P = i' * P * (\<sigma>' * S + \<alpha>' * A)"
    by (simp add: algebra_simps)
  have "dS + dA = rS' * S * (1 - (S + A) / K') + rA' * A * (1 - (S + A) / K')
               - e' * C * ka' - (i' * S * \<sigma>' * P + i' * A * \<alpha>' * P)"
    unfolding dS_def dA_def by (rule mutation_terms_sum)
  with sg al m infect show ?thesis
    by (metis (no_types))
qed

theorem model_mutation_terms_cancel_witness:
  "(1::real) + 3 \<noteq> 0 \<and> (2::real) \<noteq> 0 \<and>
   (\<exists>\<sigma>' \<alpha>' dCa dS dA dP.
     sigma 1 3 = Finite \<sigma>' \<and> alpha 1 3 = Finite \<alpha>' \<and>
     model 0 [1, 3, 1, 1] 1 1 1 1 2 5 7 1 1 1 1 =
       Inr [Finite dCa, Finite dS, Finite dA, Finite dP] \<and>
     dS + dA = 1 * 3 * (1 - (3 + 1) / 2) + 1 * 1 * (1 - (3 + 1) / 2)
               - 1 * 1 * 1 - 1 * 1 * (\<sigma>' * 3 + \<alpha>' * 1))"
  using model_mutation_terms_cancel [where A = 1 and S = 3 and K' = 2 and t = 0 and C = 1
      and P = 1 and \<gamma>' = 1 and e' = 1 and ka' = 1 and rS' = 1 and mA' = 5 and mS' = 7
      and rA' = 1 and i' = 1 and d' = 1 and b' = 1]
  by simp

end
